theory Spec2Isabelle
  imports Main "HOL-Library.Sublist"
begin

section \<open>Python values used by the converter\<close>

text \<open>
  The converter reads a parsed JSON tree. A JSON number is a Python \<open>int\<close> or a Python
  \<open>float\<close>. Integers are modelled exactly as \<open>int\<close>. The float type and its primitives
  (conversion, printing, parsing, arithmetic, comparison, \<open>math.atan2\<close>, \<open>math.degrees\<close>)
  belong to the Python runtime, not to this repository, so they are a parameter: a type
  \<open>'f\<close> and a record of operations on it. Every function that formats or computes with a
  number takes this record as its first argument \<open>F\<close>.
\<close>

datatype 'f pynum = PInt int | PFloat 'f

record 'f float_ops =
  f_of_int :: "int \<Rightarrow> 'f"
  f_str :: "'f \<Rightarrow> string"
  f_parse :: "string \<Rightarrow> 'f"
  f_fmt1 :: "'f \<Rightarrow> string"
  f_add :: "'f \<Rightarrow> 'f \<Rightarrow> 'f"
  f_sub :: "'f \<Rightarrow> 'f \<Rightarrow> 'f"
  f_mul :: "'f \<Rightarrow> 'f \<Rightarrow> 'f"
  f_div :: "'f \<Rightarrow> 'f \<Rightarrow> 'f"
  f_int_truediv :: "int \<Rightarrow> int \<Rightarrow> 'f"
  f_trunc :: "'f \<Rightarrow> int"
  f_eq :: "'f \<Rightarrow> 'f \<Rightarrow> bool"
  f_eq_int :: "'f \<Rightarrow> int \<Rightarrow> bool"
  f_lt_int :: "'f \<Rightarrow> int \<Rightarrow> bool"
  f_gt_int :: "'f \<Rightarrow> int \<Rightarrow> bool"
  f_atan2 :: "'f \<Rightarrow> 'f \<Rightarrow> 'f"
  f_degrees :: "'f \<Rightarrow> 'f"

text \<open>
  The primitives for documents all of whose numbers are JSON integers and on which no
  float is ever produced: the float type is \<open>unit\<close>. It is used to evaluate the converter
  on concrete integer-valued trees; no primitive is reached on those evaluations.
\<close>

definition int_only :: "unit float_ops" where
  "int_only = \<lparr> f_of_int = (\<lambda>_. ()), f_str = (\<lambda>_. ''nan''), f_parse = (\<lambda>_. ()),
     f_fmt1 = (\<lambda>_. ''nan''), f_add = (\<lambda>_ _. ()), f_sub = (\<lambda>_ _. ()), f_mul = (\<lambda>_ _. ()),
     f_div = (\<lambda>_ _. ()), f_int_truediv = (\<lambda>_ _. ()), f_trunc = (\<lambda>_. 0),
     f_eq = (\<lambda>_ _. False), f_eq_int = (\<lambda>_ _. False), f_lt_int = (\<lambda>_ _. False),
     f_gt_int = (\<lambda>_ _. False), f_atan2 = (\<lambda>_ _. ()), f_degrees = (\<lambda>_. ()) \<rparr>"

subsection \<open>Printing integers\<close>

definition digit_char :: "nat \<Rightarrow> char" where
  "digit_char d = ''0123456789'' ! d"

fun show_nat :: "nat \<Rightarrow> string" where
  "show_nat n = (if n < 10 then [digit_char n] else show_nat (n div 10) @ [digit_char (n mod 10)])"

declare show_nat.simps [simp del]

definition show_int :: "int \<Rightarrow> string" where
  "show_int i = (if i < 0 then CHR ''-'' # show_nat (nat (- i)) else show_nat (nat i))"

subsection \<open>Arithmetic, comparison and formatting on Python numbers\<close>

fun to_float :: "'f float_ops \<Rightarrow> 'f pynum \<Rightarrow> 'f" where
  "to_float F (PInt i) = f_of_int F i"
| "to_float F (PFloat x) = x"

text \<open>\<open>str(x)\<close> and \<open>f"{x}"\<close>.\<close>

fun py_str :: "'f float_ops \<Rightarrow> 'f pynum \<Rightarrow> string" where
  "py_str F (PInt i) = show_int i"
| "py_str F (PFloat x) = f_str F x"

text \<open>\<open>f"{x:.1f}"\<close>: an \<open>int\<close> is converted to \<open>float\<close> by the format.\<close>

definition py_fmt1 :: "'f float_ops \<Rightarrow> 'f pynum \<Rightarrow> string" where
  "py_fmt1 F x = f_fmt1 F (to_float F x)"

fun py_sub :: "'f float_ops \<Rightarrow> 'f pynum \<Rightarrow> 'f pynum \<Rightarrow> 'f pynum" where
  "py_sub F (PInt a) (PInt b) = PInt (a - b)"
| "py_sub F a b = PFloat (f_sub F (to_float F a) (to_float F b))"

fun py_add :: "'f float_ops \<Rightarrow> 'f pynum \<Rightarrow> 'f pynum \<Rightarrow> 'f pynum" where
  "py_add F (PInt a) (PInt b) = PInt (a + b)"
| "py_add F a b = PFloat (f_add F (to_float F a) (to_float F b))"

fun py_mul :: "'f float_ops \<Rightarrow> 'f pynum \<Rightarrow> 'f pynum \<Rightarrow> 'f pynum" where
  "py_mul F (PInt a) (PInt b) = PInt (a * b)"
| "py_mul F a b = PFloat (f_mul F (to_float F a) (to_float F b))"

text \<open>\<open>x / 100\<close>: true division always gives a float.\<close>

fun py_truediv :: "'f float_ops \<Rightarrow> 'f pynum \<Rightarrow> 'f pynum \<Rightarrow> 'f pynum" where
  "py_truediv F (PInt a) (PInt b) = PFloat (f_int_truediv F a b)"
| "py_truediv F a b = PFloat (f_div F (to_float F a) (to_float F b))"

text \<open>\<open>int(x)\<close>.\<close>

fun py_int :: "'f float_ops \<Rightarrow> 'f pynum \<Rightarrow> int" where
  "py_int F (PInt i) = i"
| "py_int F (PFloat x) = f_trunc F x"

text \<open>\<open>x > k\<close>, \<open>x < k\<close> and \<open>x == k\<close> for an integer literal \<open>k\<close>; \<open>a == b\<close>.\<close>

fun py_gt :: "'f float_ops \<Rightarrow> 'f pynum \<Rightarrow> int \<Rightarrow> bool" where
  "py_gt F (PInt i) k = (i > k)"
| "py_gt F (PFloat x) k = f_gt_int F x k"

fun py_lt :: "'f float_ops \<Rightarrow> 'f pynum \<Rightarrow> int \<Rightarrow> bool" where
  "py_lt F (PInt i) k = (i < k)"
| "py_lt F (PFloat x) k = f_lt_int F x k"

fun py_eq :: "'f float_ops \<Rightarrow> 'f pynum \<Rightarrow> 'f pynum \<Rightarrow> bool" where
  "py_eq F (PInt a) (PInt b) = (a = b)"
| "py_eq F (PFloat x) (PInt b) = f_eq_int F x b"
| "py_eq F (PInt a) (PFloat y) = f_eq_int F y a"
| "py_eq F (PFloat x) (PFloat y) = f_eq F x y"

text \<open>Truthiness of a number: it is not zero.\<close>

definition py_truthy :: "'f float_ops \<Rightarrow> 'f pynum \<Rightarrow> bool" where
  "py_truthy F x = (\<not> py_eq F x (PInt 0))"

subsection \<open>Strings\<close>

text \<open>
  Strings are lists of 8-bit characters; the model covers ASCII text. \<open>isalnum\<close> and
  \<open>lower\<close> are the ASCII restrictions of Python's Unicode-aware methods.
\<close>

definition isalnum :: "char \<Rightarrow> bool" where
  "isalnum c = (let n = (of_char c :: nat) in
     (48 \<le> n \<and> n \<le> 57) \<or> (65 \<le> n \<and> n \<le> 90) \<or> (97 \<le> n \<and> n \<le> 122))"

definition lower_char :: "char \<Rightarrow> char" where
  "lower_char c = (let n = (of_char c :: nat) in
     if 65 \<le> n \<and> n \<le> 90 then char_of (n + 32) else c)"

definition lower :: "string \<Rightarrow> string" where
  "lower s = map lower_char s"

text \<open>\<open>sep.join(parts)\<close>.\<close>

fun join :: "string \<Rightarrow> string list \<Rightarrow> string" where
  "join sep [] = []"
| "join sep [x] = x"
| "join sep (x # y # ys) = x @ sep @ join sep (y # ys)"

text \<open>\<open>html.escape(s)\<close> with its default \<open>quote=True\<close>.\<close>

definition escape_char :: "char \<Rightarrow> string" where
  "escape_char c =
    (if c = CHR ''&'' then ''&amp;''
     else if c = CHR ''<'' then ''&lt;''
     else if c = CHR ''>'' then ''&gt;''
     else if c = CHR 0x22 then ''&quot;''
     else if c = CHR 0x27 then ''&#x27;''
     else [c])"

definition escape :: "string \<Rightarrow> string" where
  "escape s = concat (map escape_char s)"

text \<open>\<open>s.replace('\n', '<br>')\<close>.\<close>

definition nl_to_br :: "string \<Rightarrow> string" where
  "nl_to_br s = concat (map (\<lambda>c. if c = CHR 0x0A then ''<br>'' else [c]) s)"

text \<open>
  \<open>s.replace(old, '')\<close> for a non-empty \<open>old\<close>: occurrences are removed left to right,
  without overlap.
\<close>

fun remove_all :: "string \<Rightarrow> string \<Rightarrow> string" where
  "remove_all old [] = []"
| "remove_all old (c # cs) =
    (if old \<noteq> [] \<and> prefix old (c # cs)
     then remove_all old (drop (length old) (c # cs))
     else c # remove_all old cs)"

text \<open>\<open>s.split(',')\<close>.\<close>

fun split_comma :: "string \<Rightarrow> string list" where
  "split_comma [] = [[]]"
| "split_comma (c # cs) =
    (case split_comma cs of
       [] \<Rightarrow> [[c]]
     | p # ps \<Rightarrow> if c = CHR '','' then [] # p # ps else (c # p) # ps)"

text \<open>\<open>s.strip()\<close> on ASCII whitespace.\<close>

definition is_space :: "char \<Rightarrow> bool" where
  "is_space c = (c \<in> {CHR '' '', CHR 0x09, CHR 0x0A, CHR 0x0B, CHR 0x0C, CHR 0x0D})"

definition strip :: "string \<Rightarrow> string" where
  "strip s = rev (dropWhile is_space (rev (dropWhile is_space s)))"

section \<open>The design document\<close>

text \<open>
  A node is a JSON object. Each key the converter reads is a field of optional type:
  \<open>None\<close> is an absent key, and the default is applied where the code applies it. The fields
  carry the types the schema gives them, so the model covers well-formed documents.
  \<open>n_other_keys\<close> says whether the object has keys the converter never reads; it matters
  only for the truthiness of a dictionary (\<open>if parent:\<close>).
\<close>

record 'f box =
  b_x :: "'f pynum option"
  b_y :: "'f pynum option"
  b_width :: "'f pynum option"
  b_height :: "'f pynum option"

record 'f color =
  c_r :: "'f pynum option"
  c_g :: "'f pynum option"
  c_b :: "'f pynum option"
  c_a :: "'f pynum option"

record 'f gradient_stop =
  gs_color :: "'f color option"
  gs_position :: "'f pynum option"

record 'f vec =
  v_x :: "'f pynum option"
  v_y :: "'f pynum option"

text \<open>A paint: an entry of \<open>fills\<close> or of \<open>strokes\<close>.\<close>

record 'f paint =
  p_type :: "string option"
  p_visible :: "bool option"
  p_opacity :: "'f pynum option"
  p_color :: "'f color option"
  p_gradientStops :: "'f gradient_stop list option"
  p_gradientHandlePositions :: "'f vec list option"
  p_imageRef :: "string option"

record 'f effect =
  e_type :: "string option"
  e_visible :: "bool option"
  e_offset :: "'f vec option"
  e_radius :: "'f pynum option"
  e_color :: "'f color option"

record 'f stroke_weights =
  sw_top :: "'f pynum option"
  sw_right :: "'f pynum option"
  sw_bottom :: "'f pynum option"
  sw_left :: "'f pynum option"

record 'f text_style =
  ts_fontFamily :: "string option"
  ts_fontSize :: "'f pynum option"
  ts_fontWeight :: "'f pynum option"
  ts_lineHeightPx :: "'f pynum option"
  ts_lineHeightPercent :: "'f pynum option"
  ts_lineHeightPercentFontSize :: "'f pynum option"
  ts_letterSpacing :: "'f pynum option"
  ts_textAlignHorizontal :: "string option"
  ts_textAlignVertical :: "string option"
  ts_textDecoration :: "string option"
  ts_textCase :: "string option"

record 'f node_attrs =
  n_id :: "string option"
  n_name :: "string option"
  n_type :: "string option"
  n_visible :: "bool option"
  n_absoluteBoundingBox :: "'f box option"
  n_layoutMode :: "string option"
  n_primaryAxisAlignItems :: "string option"
  n_counterAxisAlignItems :: "string option"
  n_itemSpacing :: "'f pynum option"
  n_paddingLeft :: "'f pynum option"
  n_paddingRight :: "'f pynum option"
  n_paddingTop :: "'f pynum option"
  n_paddingBottom :: "'f pynum option"
  n_layoutWrap :: "string option"
  n_layoutSizingHorizontal :: "string option"
  n_layoutSizingVertical :: "string option"
  n_clipsContent :: "bool option"
  n_rotation :: "'f pynum option"
  n_fills :: "'f paint list option"
  n_strokes :: "'f paint list option"
  n_strokeWeight :: "'f pynum option"
  n_strokeAlign :: "string option"
  n_individualStrokeWeights :: "'f stroke_weights option"
  n_cornerRadius :: "'f pynum option"
  n_rectangleCornerRadii :: "'f pynum list option"
  n_effects :: "'f effect list option"
  n_opacity :: "'f pynum option"
  n_blendMode :: "string option"
  n_characters :: "string option"
  n_style :: "'f text_style option"
  n_other_keys :: bool

datatype 'f node = Node (attrs: "'f node_attrs") (children: "'f node list option")

text \<open>A node with no key at all, the empty dictionary, from which concrete nodes are built.\<close>

definition no_attrs :: "'f node_attrs" where
  "no_attrs = \<lparr> n_id = None, n_name = None, n_type = None, n_visible = None,
     n_absoluteBoundingBox = None, n_layoutMode = None, n_primaryAxisAlignItems = None,
     n_counterAxisAlignItems = None, n_itemSpacing = None, n_paddingLeft = None,
     n_paddingRight = None, n_paddingTop = None, n_paddingBottom = None, n_layoutWrap = None,
     n_layoutSizingHorizontal = None, n_layoutSizingVertical = None, n_clipsContent = None,
     n_rotation = None, n_fills = None, n_strokes = None, n_strokeWeight = None,
     n_strokeAlign = None, n_individualStrokeWeights = None, n_cornerRadius = None,
     n_rectangleCornerRadii = None, n_effects = None, n_opacity = None, n_blendMode = None,
     n_characters = None, n_style = None, n_other_keys = False \<rparr>"

definition no_style :: "'f text_style" where
  "no_style = \<lparr> ts_fontFamily = None, ts_fontSize = None, ts_fontWeight = None,
     ts_lineHeightPx = None, ts_lineHeightPercent = None, ts_lineHeightPercentFontSize = None,
     ts_letterSpacing = None, ts_textAlignHorizontal = None, ts_textAlignVertical = None,
     ts_textDecoration = None, ts_textCase = None \<rparr>"

text \<open>Whether a key is there.\<close>

definition present :: "'a option \<Rightarrow> bool" where
  "present v = (case v of None \<Rightarrow> False | Some _ \<Rightarrow> True)"

text \<open>Truthiness of a node dictionary: it has at least one key.\<close>

definition dict_nonempty :: "'f node \<Rightarrow> bool" where
  "dict_nonempty n = (let a = attrs n in
     present (children n) \<or> n_other_keys a \<or> present (n_id a) \<or> present (n_name a) \<or>
     present (n_type a) \<or> present (n_visible a) \<or> present (n_absoluteBoundingBox a) \<or>
     present (n_layoutMode a) \<or> present (n_primaryAxisAlignItems a) \<or>
     present (n_counterAxisAlignItems a) \<or> present (n_itemSpacing a) \<or>
     present (n_paddingLeft a) \<or> present (n_paddingRight a) \<or> present (n_paddingTop a) \<or>
     present (n_paddingBottom a) \<or> present (n_layoutWrap a) \<or>
     present (n_layoutSizingHorizontal a) \<or> present (n_layoutSizingVertical a) \<or>
     present (n_clipsContent a) \<or> present (n_rotation a) \<or> present (n_fills a) \<or>
     present (n_strokes a) \<or> present (n_strokeWeight a) \<or> present (n_strokeAlign a) \<or>
     present (n_individualStrokeWeights a) \<or> present (n_cornerRadius a) \<or>
     present (n_rectangleCornerRadii a) \<or> present (n_effects a) \<or> present (n_opacity a) \<or>
     present (n_blendMode a) \<or> present (n_characters a) \<or> present (n_style a))"

text \<open>\<open>d.get(key, default)\<close> on an optional field.\<close>

definition get_or :: "'a option \<Rightarrow> 'a \<Rightarrow> 'a" where
  "get_or v d = (case v of None \<Rightarrow> d | Some x \<Rightarrow> x)"

section \<open>LayoutConverter\<close>

text \<open>
  \<open>get_position_styles(node, parent)\<close>. \<open>parent\<close> is \<open>None\<close> for the page. The relative
  position is computed only when the parent is a non-empty dictionary that has the key
  \<open>absoluteBoundingBox\<close>; a parent with \<open>layoutMode\<close> HORIZONTAL or VERTICAL gives no
  declaration.
\<close>

definition get_position_styles ::
  "'f float_ops \<Rightarrow> 'f node \<Rightarrow> 'f node option \<Rightarrow> string list" where
  "get_position_styles F node parent =
    (let abs_box = n_absoluteBoundingBox (attrs node);
         x0 = (case abs_box of None \<Rightarrow> PInt 0 | Some b \<Rightarrow> get_or (b_x b) (PInt 0));
         y0 = (case abs_box of None \<Rightarrow> PInt 0 | Some b \<Rightarrow> get_or (b_y b) (PInt 0));
         parent_truthy = (case parent of None \<Rightarrow> False | Some p \<Rightarrow> dict_nonempty p);
         parent_box = (case parent of None \<Rightarrow> None | Some p \<Rightarrow> n_absoluteBoundingBox (attrs p));
         x = (case parent_box of
                Some pb \<Rightarrow> if parent_truthy then py_sub F x0 (get_or (b_x pb) (PInt 0)) else x0
              | None \<Rightarrow> x0);
         y = (case parent_box of
                Some pb \<Rightarrow> if parent_truthy then py_sub F y0 (get_or (b_y pb) (PInt 0)) else y0
              | None \<Rightarrow> y0);
         layout_mode = (case parent of None \<Rightarrow> None | Some p \<Rightarrow> n_layoutMode (attrs p))
     in if parent_truthy \<and> (layout_mode = Some ''HORIZONTAL'' \<or> layout_mode = Some ''VERTICAL'')
        then []
        else [''position: absolute;'',
              ''left: '' @ py_str F x @ ''px;'',
              ''top: '' @ py_str F y @ ''px;''])"

definition get_size_styles :: "'f float_ops \<Rightarrow> 'f node \<Rightarrow> string list" where
  "get_size_styles F node =
    (let abs_box = n_absoluteBoundingBox (attrs node);
         width = (case abs_box of None \<Rightarrow> PInt 0 | Some b \<Rightarrow> get_or (b_width b) (PInt 0));
         height = (case abs_box of None \<Rightarrow> PInt 0 | Some b \<Rightarrow> get_or (b_height b) (PInt 0));
         layout_sizing_h = n_layoutSizingHorizontal (attrs node);
         layout_sizing_v = n_layoutSizingVertical (attrs node)
     in (if layout_sizing_h = Some ''FILL'' then [''width: 100%;'']
         else if layout_sizing_h = Some ''HUG'' then [''width: fit-content;'']
         else if py_gt F width 0 then [''width: '' @ py_str F width @ ''px;''] else [])
      @ (if layout_sizing_v = Some ''FILL'' then [''height: 100%;'']
         else if layout_sizing_v = Some ''HUG'' then [''height: fit-content;'']
         else if py_gt F height 0 then [''height: '' @ py_str F height @ ''px;''] else []))"

text \<open>
  \<open>get_auto_layout_styles(node)\<close>. The two branches of the source for the primary axis
  (HORIZONTAL, and everything else) emit the same declarations and are kept apart here as
  they are there.
\<close>

definition justify_of :: "string \<Rightarrow> string list" where
  "justify_of primary_align =
    (if primary_align = ''MIN'' then [''justify-content: flex-start;'']
     else if primary_align = ''CENTER'' then [''justify-content: center;'']
     else if primary_align = ''MAX'' then [''justify-content: flex-end;'']
     else if primary_align = ''SPACE_BETWEEN'' then [''justify-content: space-between;'']
     else [])"

definition get_auto_layout_styles :: "'f float_ops \<Rightarrow> 'f node \<Rightarrow> string list" where
  "get_auto_layout_styles F node =
    (let a = attrs node; layout_mode = n_layoutMode a
     in if layout_mode = None \<or> layout_mode = Some [] \<or> layout_mode = Some ''NONE'' then []
        else
          (let primary_align = get_or (n_primaryAxisAlignItems a) ''MIN'';
               counter_align = get_or (n_counterAxisAlignItems a) ''MIN'';
               item_spacing = get_or (n_itemSpacing a) (PInt 0);
               padding_left = get_or (n_paddingLeft a) (PInt 0);
               padding_right = get_or (n_paddingRight a) (PInt 0);
               padding_top = get_or (n_paddingTop a) (PInt 0);
               padding_bottom = get_or (n_paddingBottom a) (PInt 0);
               layout_wrap = get_or (n_layoutWrap a) ''NO_WRAP''
           in [''display: flex;'']
            @ (if layout_mode = Some ''HORIZONTAL'' then [''flex-direction: row;'']
               else if layout_mode = Some ''VERTICAL'' then [''flex-direction: column;'']
               else [])
            @ (if layout_mode = Some ''HORIZONTAL'' then justify_of primary_align
               else justify_of primary_align)
            @ (if counter_align = ''MIN'' then [''align-items: flex-start;'']
               else if counter_align = ''CENTER'' then [''align-items: center;'']
               else if counter_align = ''MAX'' then [''align-items: flex-end;'']
               else if counter_align = ''BASELINE'' then [''align-items: baseline;'']
               else [])
            @ (if py_gt F item_spacing 0 then [''gap: '' @ py_str F item_spacing @ ''px;''] else [])
            @ (if py_eq F padding_left padding_right \<and> py_eq F padding_right padding_top
                  \<and> py_eq F padding_top padding_bottom
               then (if py_gt F padding_left 0
                     then [''padding: '' @ py_str F padding_left @ ''px;''] else [])
               else (if py_gt F padding_top 0 \<or> py_gt F padding_right 0
                        \<or> py_gt F padding_bottom 0 \<or> py_gt F padding_left 0
                     then [''padding: '' @ py_str F padding_top @ ''px '' @ py_str F padding_right
                           @ ''px '' @ py_str F padding_bottom @ ''px '' @ py_str F padding_left
                           @ ''px;'']
                     else []))
            @ (if layout_wrap = ''WRAP'' then [''flex-wrap: wrap;''] else [])))"

definition get_overflow_styles :: "'f node \<Rightarrow> string list" where
  "get_overflow_styles node =
    (if get_or (n_clipsContent (attrs node)) False then [''overflow: hidden;''] else [])"

text \<open>
  \<open>get_transform_styles(node)\<close>. The branch on \<open>relativeTransform\<close> is \<open>pass\<close> in the
  source and emits nothing; that key is among the keys the converter does not read.
\<close>

definition get_transform_styles :: "'f float_ops \<Rightarrow> 'f node \<Rightarrow> string list" where
  "get_transform_styles F node =
    (case n_rotation (attrs node) of
       None \<Rightarrow> []
     | Some rotation \<Rightarrow>
         if py_truthy F rotation \<and> \<not> py_eq F rotation (PInt 0)
         then [''transform: rotate('' @ py_str F rotation @ ''deg);'']
         else [])"

section \<open>StyleConverter\<close>

definition no_color :: "'f color" where
  "no_color = \<lparr> c_r = None, c_g = None, c_b = None, c_a = None \<rparr>"

definition no_vec :: "'f vec" where
  "no_vec = \<lparr> v_x = None, v_y = None \<rparr>"

definition rgba_to_css :: "'f float_ops \<Rightarrow> 'f color \<Rightarrow> string" where
  "rgba_to_css F color =
    (let r = py_int F (py_mul F (get_or (c_r color) (PInt 0)) (PInt 255));
         g = py_int F (py_mul F (get_or (c_g color) (PInt 0)) (PInt 255));
         b = py_int F (py_mul F (get_or (c_b color) (PInt 0)) (PInt 255));
         a = get_or (c_a color) (PInt 1)
     in ''rgba('' @ show_int r @ '', '' @ show_int g @ '', '' @ show_int b @ '', ''
        @ py_str F a @ '')'')"

text \<open>The colour stops of a gradient; \<open>scale\<close> is 100 (percent) or 360 (degrees).\<close>

definition gradient_stop_css ::
  "'f float_ops \<Rightarrow> int \<Rightarrow> string \<Rightarrow> 'f gradient_stop \<Rightarrow> string" where
  "gradient_stop_css F scale unit stop =
    (let color = rgba_to_css F (get_or (gs_color stop) no_color);
         position = py_mul F (get_or (gs_position stop) (PInt 0)) (PInt scale)
     in color @ '' '' @ py_fmt1 F position @ unit)"

definition convert_linear_gradient :: "'f float_ops \<Rightarrow> 'f paint \<Rightarrow> string option" where
  "convert_linear_gradient F fill =
    (let gradient_stops = get_or (p_gradientStops fill) []
     in if gradient_stops = [] then None
        else
          (let handles = get_or (p_gradientHandlePositions fill) [];
               angle = (case handles of
                    h0 # h1 # _ \<Rightarrow>
                      (let x1 = get_or (v_x h0) (PInt 0); y1 = get_or (v_y h0) (PInt 0);
                           x2 = get_or (v_x h1) (PInt 1); y2 = get_or (v_y h1) (PInt 1);
                           dx = py_sub F x2 x1;
                           dy = py_sub F y2 y1
                       in py_add F
                            (PFloat (f_degrees F (f_atan2 F (to_float F dy) (to_float F dx))))
                            (PInt 90))
                  | _ \<Rightarrow> PInt 180);
               stops = map (gradient_stop_css F 100 ''%'') gradient_stops
           in Some (''linear-gradient('' @ py_fmt1 F angle @ ''deg, '' @ join '', '' stops
                    @ '')'')))"

definition convert_radial_gradient :: "'f float_ops \<Rightarrow> 'f paint \<Rightarrow> string option" where
  "convert_radial_gradient F fill =
    (let gradient_stops = get_or (p_gradientStops fill) []
     in if gradient_stops = [] then None
        else Some (''radial-gradient(circle, ''
               @ join '', '' (map (gradient_stop_css F 100 ''%'') gradient_stops) @ '')''))"

definition convert_angular_gradient :: "'f float_ops \<Rightarrow> 'f paint \<Rightarrow> string option" where
  "convert_angular_gradient F fill =
    (let gradient_stops = get_or (p_gradientStops fill) []
     in if gradient_stops = [] then None
        else Some (''conic-gradient(''
               @ join '', '' (map (gradient_stop_css F 360 ''deg'') gradient_stops) @ '')''))"

text \<open>
  The paint opacity is applied to a SOLID fill by taking the printed colour apart:
  \<open>rgba.replace('rgba(', '').replace(')', '').split(',')\<close>, then the fourth part is
  parsed, multiplied and printed again.
\<close>

definition apply_opacity :: "'f float_ops \<Rightarrow> string \<Rightarrow> 'f pynum \<Rightarrow> string" where
  "apply_opacity F rgba opacity =
    (if py_lt F opacity 1
     then (let parts = split_comma (remove_all '')'' (remove_all ''rgba('' rgba))
           in if length parts = 4
              then ''rgba('' @ join '',''
                     (parts[3 := f_str F (f_mul F (f_parse F (strip (parts ! 3)))
                                                  (to_float F opacity))]) @ '')''
              else rgba)
     else rgba)"

text \<open>The body of the loop over \<open>fills\<close>, for one visible fill.\<close>

definition fill_styles :: "'f float_ops \<Rightarrow> 'f paint \<Rightarrow> string list" where
  "fill_styles F fill =
    (let fill_type = p_type fill; opacity = get_or (p_opacity fill) (PInt 1)
     in if fill_type = Some ''SOLID''
        then [''background-color: ''
                @ apply_opacity F (rgba_to_css F (get_or (p_color fill) no_color)) opacity
                @ '';'']
        else if fill_type = Some ''GRADIENT_LINEAR''
        then (case convert_linear_gradient F fill of
                None \<Rightarrow> [] | Some gradient \<Rightarrow> [''background: '' @ gradient @ '';''])
        else if fill_type = Some ''GRADIENT_RADIAL''
        then (case convert_radial_gradient F fill of
                None \<Rightarrow> [] | Some gradient \<Rightarrow> [''background: '' @ gradient @ '';''])
        else if fill_type = Some ''GRADIENT_ANGULAR''
        then (case convert_angular_gradient F fill of
                None \<Rightarrow> [] | Some gradient \<Rightarrow> [''background: '' @ gradient @ '';''])
        else if fill_type = Some ''IMAGE''
        then (case p_imageRef fill of
                None \<Rightarrow> []
              | Some image_ref \<Rightarrow>
                  if image_ref = [] then []
                  else [''/* background-image: requires image ref '' @ image_ref @ '' */''])
        else [])"

fun fills_loop :: "'f float_ops \<Rightarrow> 'f paint list \<Rightarrow> string list" where
  "fills_loop F [] = []"
| "fills_loop F (fill # fills) =
    (if \<not> get_or (p_visible fill) True then fills_loop F fills
     else fill_styles F fill @ fills_loop F fills)"

definition get_background_styles :: "'f float_ops \<Rightarrow> 'f node \<Rightarrow> string list" where
  "get_background_styles F node = fills_loop F (get_or (n_fills (attrs node)) [])"

text \<open>The body of the loop over \<open>strokes\<close>, for one visible stroke.\<close>

definition stroke_styles ::
  "'f float_ops \<Rightarrow> 'f pynum \<Rightarrow> string \<Rightarrow> 'f paint \<Rightarrow> string list" where
  "stroke_styles F stroke_weight stroke_align stroke =
    (let stroke_type = p_type stroke
     in if stroke_type = Some ''SOLID''
        then [''border: '' @ py_str F stroke_weight @ ''px solid ''
                @ rgba_to_css F (get_or (p_color stroke) no_color) @ '';'']
             @ (if stroke_align = ''OUTSIDE'' then [''box-sizing: content-box;''] else [])
        else if stroke_type = Some ''GRADIENT_LINEAR''
        then (case convert_linear_gradient F stroke of
                None \<Rightarrow> []
              | Some gradient \<Rightarrow>
                  [''border: '' @ py_str F stroke_weight @ ''px solid;'',
                   ''border-image: '' @ gradient @ '' 1;''])
        else [])"

fun strokes_loop ::
  "'f float_ops \<Rightarrow> 'f pynum \<Rightarrow> string \<Rightarrow> 'f paint list \<Rightarrow> string list" where
  "strokes_loop F w al [] = []"
| "strokes_loop F w al (stroke # strokes) =
    (if \<not> get_or (p_visible stroke) True then strokes_loop F w al strokes
     else stroke_styles F w al stroke @ strokes_loop F w al strokes)"

definition get_border_styles :: "'f float_ops \<Rightarrow> 'f node \<Rightarrow> string list" where
  "get_border_styles F node =
    (let a = attrs node;
         strokes = get_or (n_strokes a) [];
         stroke_weight = get_or (n_strokeWeight a) (PInt 0);
         stroke_align = get_or (n_strokeAlign a) ''INSIDE''
     in if strokes = [] \<or> py_eq F stroke_weight (PInt 0) then []
        else strokes_loop F stroke_weight stroke_align strokes
           @ (case n_individualStrokeWeights a of
                None \<Rightarrow> []
              | Some weights \<Rightarrow>
                  [''border-top-width: '' @ py_str F (get_or (sw_top weights) stroke_weight) @ ''px;'',
                   ''border-right-width: '' @ py_str F (get_or (sw_right weights) stroke_weight) @ ''px;'',
                   ''border-bottom-width: '' @ py_str F (get_or (sw_bottom weights) stroke_weight) @ ''px;'',
                   ''border-left-width: '' @ py_str F (get_or (sw_left weights) stroke_weight) @ ''px;'']))"

definition get_border_radius :: "'f float_ops \<Rightarrow> 'f node \<Rightarrow> string list" where
  "get_border_radius F node =
    (case n_cornerRadius (attrs node) of
       None \<Rightarrow> []
     | Some radius \<Rightarrow>
         if py_gt F radius 0 then [''border-radius: '' @ py_str F radius @ ''px;''] else [])
    @ (case n_rectangleCornerRadii (attrs node) of
         Some [r0, r1, r2, r3] \<Rightarrow>
           [''border-radius: '' @ py_str F r0 @ ''px '' @ py_str F r1 @ ''px '' @ py_str F r2
            @ ''px '' @ py_str F r3 @ ''px;'']
       | _ \<Rightarrow> [])"

text \<open>
  The loop over \<open>effects\<close> carries two lists: the declarations and the shadows collected
  for the single \<open>box-shadow\<close> declaration.
\<close>

definition shadow_css :: "'f float_ops \<Rightarrow> 'f effect \<Rightarrow> string" where
  "shadow_css F effect =
    (let offset = get_or (e_offset effect) no_vec;
         x = get_or (v_x offset) (PInt 0);
         y = get_or (v_y offset) (PInt 0);
         radius = get_or (e_radius effect) (PInt 0);
         color = rgba_to_css F (get_or (e_color effect) no_color)
     in py_str F x @ ''px '' @ py_str F y @ ''px '' @ py_str F radius @ ''px '' @ color)"

fun effects_loop ::
  "'f float_ops \<Rightarrow> 'f effect list \<Rightarrow> string list \<Rightarrow> string list \<Rightarrow> string list \<times> string list" where
  "effects_loop F [] styles box_shadows = (styles, box_shadows)"
| "effects_loop F (effect # effects) styles box_shadows =
    (if \<not> get_or (e_visible effect) True then effects_loop F effects styles box_shadows
     else if e_type effect = Some ''DROP_SHADOW''
     then effects_loop F effects styles (box_shadows @ [shadow_css F effect])
     else if e_type effect = Some ''INNER_SHADOW''
     then effects_loop F effects styles (box_shadows @ [''inset '' @ shadow_css F effect])
     else if e_type effect = Some ''LAYER_BLUR''
     then (let radius = get_or (e_radius effect) (PInt 0)
           in effects_loop F effects
                (if py_gt F radius 0
                 then styles @ [''filter: blur('' @ py_str F radius @ ''px);''] else styles)
                box_shadows)
     else if e_type effect = Some ''BACKGROUND_BLUR''
     then (let radius = get_or (e_radius effect) (PInt 0)
           in effects_loop F effects
                (if py_gt F radius 0
                 then styles @ [''backdrop-filter: blur('' @ py_str F radius @ ''px);'']
                 else styles)
                box_shadows)
     else effects_loop F effects styles box_shadows)"

definition get_effect_styles :: "'f float_ops \<Rightarrow> 'f node \<Rightarrow> string list" where
  "get_effect_styles F node =
    (let effects = get_or (n_effects (attrs node)) []
     in if effects = [] then []
        else (case effects_loop F effects [] [] of
                (styles, box_shadows) \<Rightarrow>
                  if box_shadows \<noteq> []
                  then styles @ [''box-shadow: '' @ join '', '' box_shadows @ '';'']
                  else styles))"

definition get_opacity :: "'f float_ops \<Rightarrow> 'f node \<Rightarrow> string list" where
  "get_opacity F node =
    (let opacity = get_or (n_opacity (attrs node)) (PInt 1)
     in if py_lt F opacity 1 then [''opacity: '' @ py_str F opacity @ '';''] else [])"

definition blend_mode_map :: "(string \<times> string) list" where
  "blend_mode_map =
    [(''NORMAL'', ''normal''), (''DARKEN'', ''darken''), (''MULTIPLY'', ''multiply''),
     (''COLOR_BURN'', ''color-burn''), (''LIGHTEN'', ''lighten''), (''SCREEN'', ''screen''),
     (''COLOR_DODGE'', ''color-dodge''), (''OVERLAY'', ''overlay''),
     (''SOFT_LIGHT'', ''soft-light''), (''HARD_LIGHT'', ''hard-light''),
     (''DIFFERENCE'', ''difference''), (''EXCLUSION'', ''exclusion''), (''HUE'', ''hue''),
     (''SATURATION'', ''saturation''), (''COLOR'', ''color''), (''LUMINOSITY'', ''luminosity'')]"

definition get_blend_mode :: "'f node \<Rightarrow> string list" where
  "get_blend_mode node =
    (let blend_mode = get_or (n_blendMode (attrs node)) ''PASS_THROUGH''
     in case map_of blend_mode_map blend_mode of
          None \<Rightarrow> []
        | Some css_blend \<Rightarrow> [''mix-blend-mode: '' @ css_blend @ '';''])"

definition get_text_styles :: "'f float_ops \<Rightarrow> 'f node \<Rightarrow> string list" where
  "get_text_styles F node =
    (let style = get_or (n_style (attrs node)) no_style
     in (case ts_fontFamily style of
           None \<Rightarrow> []
         | Some font_family \<Rightarrow>
             [''font-family: '' @ [CHR 0x27] @ font_family @ [CHR 0x27] @ '', sans-serif;''])
      @ (case ts_fontSize style of
           None \<Rightarrow> [] | Some v \<Rightarrow> [''font-size: '' @ py_str F v @ ''px;''])
      @ (case ts_fontWeight style of
           None \<Rightarrow> [] | Some v \<Rightarrow> [''font-weight: '' @ py_str F v @ '';''])
      @ (case ts_lineHeightPx style of
           Some v \<Rightarrow> [''line-height: '' @ py_str F v @ ''px;'']
         | None \<Rightarrow>
            (case ts_lineHeightPercent style of
               Some percent \<Rightarrow>
                 [''line-height: '' @ py_str F (py_truediv F percent (PInt 100)) @ '';'']
             | None \<Rightarrow>
                (case ts_lineHeightPercentFontSize style of
                   Some percent \<Rightarrow>
                     [''line-height: '' @ py_str F (py_truediv F percent (PInt 100)) @ '';'']
                 | None \<Rightarrow> [])))
      @ (case ts_letterSpacing style of
           None \<Rightarrow> [] | Some v \<Rightarrow> [''letter-spacing: '' @ py_str F v @ ''px;''])
      @ (case ts_textAlignHorizontal style of
           None \<Rightarrow> []
         | Some h \<Rightarrow>
             (let align = lower h
              in if align \<in> {''left'', ''right'', ''center'', ''justified''}
                 then [''text-align: '' @ (if align = ''justified'' then ''justify'' else align)
                       @ '';'']
                 else []))
      @ (case ts_textAlignVertical style of
           None \<Rightarrow> []
         | Some v \<Rightarrow>
             (let v_align = lower v
              in if v_align = ''top'' then [''align-items: flex-start;'']
                 else if v_align = ''center'' then [''align-items: center;'']
                 else if v_align = ''bottom'' then [''align-items: flex-end;'']
                 else []))
      @ (case ts_textDecoration style of
           None \<Rightarrow> []
         | Some d \<Rightarrow>
             (let decoration = lower d
              in if decoration \<in> {''underline'', ''line-through'', ''strikethrough''}
                 then [''text-decoration: ''
                       @ (if decoration = ''strikethrough'' then ''line-through'' else decoration)
                       @ '';'']
                 else []))
      @ (case ts_textCase style of
           None \<Rightarrow> []
         | Some c \<Rightarrow>
             if c = ''UPPER'' then [''text-transform: uppercase;'']
             else if c = ''LOWER'' then [''text-transform: lowercase;'']
             else if c = ''TITLE'' then [''text-transform: capitalize;'']
             else []))"

section \<open>HTMLGenerator\<close>

text \<open>
  The generator object holds the side table \<open>css_classes\<close>, a dictionary in insertion
  order, and \<open>class_counter\<close>. Both are set by the constructor \<open>__init__\<close> and by nothing
  else; the methods read and update them, so they take the generator and return it.
\<close>

record generator =
  css_classes :: "(string \<times> string list) list"
  class_counter :: int

definition HTMLGenerator_init :: generator where
  "HTMLGenerator_init = \<lparr> css_classes = [], class_counter = 0 \<rparr>"

text \<open>\<open>d[k] = v\<close> on a dictionary in insertion order.\<close>

fun dict_set :: "('k \<times> 'v) list \<Rightarrow> 'k \<Rightarrow> 'v \<Rightarrow> ('k \<times> 'v) list" where
  "dict_set [] k v = [(k, v)]"
| "dict_set ((k', v') # kvs) k v =
    (if k' = k then (k, v) # kvs else (k', v') # dict_set kvs k v)"

abbreviation nl :: string where
  "nl \<equiv> [CHR 0x0A]"

abbreviation dq :: string where
  "dq \<equiv> [CHR 0x22]"

abbreviation sq :: string where
  "sq \<equiv> [CHR 0x27]"

definition collect_styles :: "'f float_ops \<Rightarrow> 'f node \<Rightarrow> 'f node option \<Rightarrow> string list" where
  "collect_styles F node parent =
    (let styles =
           get_auto_layout_styles F node
         @ get_position_styles F node parent
         @ get_size_styles F node
         @ get_overflow_styles node
         @ get_transform_styles F node
         @ get_background_styles F node
         @ get_border_styles F node
         @ get_border_radius F node
         @ get_effect_styles F node
         @ get_opacity F node
         @ get_blend_mode node
     in if n_type (attrs node) = Some ''TEXT''
        then (let styles1 = styles @ get_text_styles F node;
                  styles2 = (if ''display: flex;'' \<notin> set styles1
                             then styles1 @ [''display: flex;''] else styles1)
              in styles2 @ [''align-items: center;''])
        else styles)"

definition generate_class_name :: "generator \<Rightarrow> 'f node \<Rightarrow> string \<times> generator" where
  "generate_class_name g node =
    (let node_name = get_or (n_name (attrs node)) ''element'';
         safe_name = map (\<lambda>c. if isalnum c \<or> c = CHR ''-'' then c else CHR ''_'') (lower node_name);
         safe_name = take 30 safe_name;
         g' = g\<lparr>class_counter := class_counter g + 1\<rparr>
     in (''figma-'' @ safe_name @ ''-'' @ show_int (class_counter g'), g'))"

definition generate_text_html :: "'f node \<Rightarrow> string \<Rightarrow> string" where
  "generate_text_html node class_name =
    (let text_content = get_or (n_characters (attrs node)) [];
         text_content = escape text_content;
         text_content = nl_to_br text_content
     in ''<div class='' @ dq @ class_name @ dq @ ''>'' @ text_content @ ''</div>'')"

definition is_shape_type :: "string option \<Rightarrow> bool" where
  "is_shape_type t =
    (t = Some ''RECTANGLE'' \<or> t = Some ''ELLIPSE'' \<or> t = Some ''VECTOR'' \<or> t = Some ''STAR''
     \<or> t = Some ''POLYGON'')"

definition is_structural_type :: "string option \<Rightarrow> bool" where
  "is_structural_type t = (t = Some ''DOCUMENT'' \<or> t = Some ''CANVAS'')"

text \<open>
  \<open>_generate_node_html\<close> with \<open>_generate_container_html\<close> and \<open>_generate_shape_html\<close>
  unfolded into it. The container types FRAME, GROUP, COMPONENT and INSTANCE and the
  default branch of the source all call \<open>_generate_container_html\<close>, so they are one branch
  here. The loop over the children, which the three methods share, is
  \<open>generate_children\<close>: it visits the children in order with the node as their parent and
  keeps the fragments that are not empty. The argument \<open>depth\<close> of the source is passed
  down and never read; it is left out.
\<close>

fun generate_node_html ::
  "'f float_ops \<Rightarrow> generator \<Rightarrow> 'f node \<Rightarrow> 'f node option \<Rightarrow> string \<times> generator"
and generate_children ::
  "'f float_ops \<Rightarrow> generator \<Rightarrow> 'f node list \<Rightarrow> 'f node \<Rightarrow> string list \<times> generator"
where
  "generate_node_html F g (Node a cs) parent =
    (if is_structural_type (n_type a)
     then (case cs of
             None \<Rightarrow> ([], g)
           | Some kids \<Rightarrow>
               (case generate_children F g kids (Node a cs) of
                  (html_parts, g') \<Rightarrow> (join nl html_parts, g')))
     else if \<not> get_or (n_visible a) True then ([], g)
     else
       (case generate_class_name g (Node a cs) of
          (class_name, g1) \<Rightarrow>
            (let styles = collect_styles F (Node a cs) parent;
                 g2 = g1\<lparr>css_classes := dict_set (css_classes g1) class_name styles\<rparr>
             in if n_type a = Some ''TEXT''
                then (generate_text_html (Node a cs) class_name, g2)
                else if is_shape_type (n_type a) \<and> (cs = None \<or> cs = Some [])
                then (''<div class='' @ dq @ class_name @ dq @ ''></div>'', g2)
                else
                  (case cs of
                     None \<Rightarrow>
                       (''<div class='' @ dq @ class_name @ dq @ ''>'' @ nl @ nl @ ''</div>'', g2)
                   | Some kids \<Rightarrow>
                       (case generate_children F g2 kids (Node a cs) of
                          (children_html, g3) \<Rightarrow>
                            (''<div class='' @ dq @ class_name @ dq @ ''>'' @ nl
                             @ join nl children_html @ nl @ ''</div>'', g3))))))"
| "generate_children F g [] p = ([], g)"
| "generate_children F g (child # rest) p =
    (case generate_node_html F g child (Some p) of
       (child_html, g1) \<Rightarrow>
         (case generate_children F g1 rest p of
            (parts, g2) \<Rightarrow> (if child_html \<noteq> [] then child_html # parts else parts, g2)))"

definition base_css :: string where
  "base_css = join nl
    [''/* Base styles */'',
     ''* {'',
     ''    box-sizing: border-box;'',
     ''    margin: 0;'',
     ''    padding: 0;'',
     ''}'',
     [],
     ''body {'',
     ''    margin: 0;'',
     ''    padding: 0;'',
     ''    font-family: -apple-system, BlinkMacSystemFont, '' @ sq @ ''Segoe UI'' @ sq
       @ '', '' @ sq @ ''Roboto'' @ sq @ '', '' @ sq @ ''Helvetica'' @ sq @ '', '' @ sq
       @ ''Arial'' @ sq @ '', sans-serif;'',
     ''}'',
     [],
     ''/* Figma styles */'']"

text \<open>The lines of one rule block; an entry with an empty style list gives none.\<close>

definition class_css_parts :: "string \<times> string list \<Rightarrow> string list" where
  "class_css_parts e =
    (case e of (class_name, styles) \<Rightarrow>
       if styles \<noteq> []
       then [''.'' @ class_name @ '' {''] @ map (\<lambda>style. ''    '' @ style) styles @ [''}'' @ nl]
       else [])"

definition generate_css :: "generator \<Rightarrow> string" where
  "generate_css g = join nl (base_css # concat (map class_css_parts (css_classes g)))"

definition wrap_html :: "string \<Rightarrow> string" where
  "wrap_html content = join nl
    [''<!DOCTYPE html>'',
     ''<html lang='' @ dq @ ''en'' @ dq @ ''>'',
     ''<head>'',
     ''    <meta charset='' @ dq @ ''UTF-8'' @ dq @ ''>'',
     ''    <meta name='' @ dq @ ''viewport'' @ dq @ '' content='' @ dq
       @ ''width=device-width, initial-scale=1.0'' @ dq @ ''>'',
     ''    <title>Figma to HTML</title>'',
     ''    <link rel='' @ dq @ ''stylesheet'' @ dq @ '' href='' @ dq @ ''styles.css'' @ dq @ ''>'',
     ''</head>'',
     ''<body>'',
     content,
     ''</body>'',
     ''</html>'']"

text \<open>
  The input of \<open>generate_html_css\<close>: a dictionary of which the key \<open>document\<close> is read.
\<close>

record 'f figma_data =
  document :: "'f node option"

text \<open>
  \<open>generate_html_css(figma_data)\<close> returns the pair of strings; the generator it leaves
  behind is returned as the second component. A missing \<open>document\<close>, a document without
  \<open>children\<close> and one with an empty list all take the early return.
\<close>

definition generate_html_css ::
  "'f float_ops \<Rightarrow> generator \<Rightarrow> 'f figma_data \<Rightarrow> (string \<times> string) \<times> generator" where
  "generate_html_css F g data =
    (let kids = (case document data of None \<Rightarrow> [] | Some d \<Rightarrow> get_or (children d) [])
     in case kids of
          [] \<Rightarrow> ((''<div>No content</div>'', []), g)
        | page # _ \<Rightarrow>
            (case generate_node_html F g page None of
               (html_content, g') \<Rightarrow>
                 (let css_content = generate_css g';
                      full_html = wrap_html html_content
                  in ((full_html, css_content), g'))))"

section \<open>Notions used in the statements\<close>

text \<open>
  The property a declaration sets is the text before its first colon: \<open>left\<close> for
  \<open>left: 10px;\<close>. A style list is a list of declarations, one string each.
\<close>

definition css_property :: "string \<Rightarrow> string" where
  "css_property s = takeWhile (\<lambda>c. c \<noteq> CHR '':'') s"

text \<open>Every declaration of the list sets a property of \<open>S\<close>.\<close>

definition decls_of :: "string set \<Rightarrow> string list \<Rightarrow> bool" where
  "decls_of S xs = list_all (\<lambda>s. css_property s \<in> S) xs"

text \<open>
  The properties that the derivations other than \<open>get_position_styles\<close> can emit. The
  placeholder comment of an IMAGE fill counts with the text before its colon.
\<close>

definition non_position_properties :: "string set" where
  "non_position_properties =
    {''display'', ''flex-direction'', ''justify-content'', ''align-items'', ''gap'', ''padding'',
     ''flex-wrap'', ''width'', ''height'', ''overflow'', ''transform'', ''background-color'',
     ''background'', ''/* background-image'', ''border'', ''box-sizing'', ''border-image'',
     ''border-top-width'', ''border-right-width'', ''border-bottom-width'', ''border-left-width'',
     ''border-radius'', ''filter'', ''backdrop-filter'', ''box-shadow'', ''opacity'',
     ''mix-blend-mode'', ''font-family'', ''font-size'', ''font-weight'', ''line-height'',
     ''letter-spacing'', ''text-align'', ''text-decoration'', ''text-transform''}"

section \<open>Example documents\<close>

text \<open>A frame with horizontal auto-layout, and a rectangle with a bounding box.\<close>

definition row_frame :: "unit node" where
  "row_frame = Node (no_attrs\<lparr>n_type := Some ''FRAME'', n_layoutMode := Some ''HORIZONTAL''\<rparr>) None"

definition boxed_rect :: "unit node" where
  "boxed_rect = Node (no_attrs\<lparr>n_type := Some ''RECTANGLE'',
     n_absoluteBoundingBox := Some \<lparr>b_x = Some (PInt 10), b_y = Some (PInt 20),
       b_width = Some (PInt 30), b_height = Some (PInt 40)\<rparr>\<rparr>) None"

section \<open>The properties each derivation emits\<close>

lemma decls_of_Nil [simp]: "decls_of S []"
  by (simp add: decls_of_def)

lemma decls_of_Cons [simp]: "decls_of S (x # xs) = (css_property x \<in> S \<and> decls_of S xs)"
  by (simp add: decls_of_def)

lemma decls_of_append [simp]: "decls_of S (xs @ ys) = (decls_of S xs \<and> decls_of S ys)"
  by (simp add: decls_of_def)

lemma decls_of_mono: "decls_of S xs \<Longrightarrow> S \<subseteq> T \<Longrightarrow> decls_of T xs"
  by (auto simp: decls_of_def list_all_iff)

lemma decls_of_filter: "decls_of S xs \<Longrightarrow> p \<notin> S \<Longrightarrow> filter (\<lambda>s. css_property s = p) xs = []"
  by (auto simp: decls_of_def list_all_iff filter_empty_conv)

lemma prop_auto:
  "decls_of {''display'', ''flex-direction'', ''justify-content'', ''align-items'', ''gap'',
     ''padding'', ''flex-wrap''} (get_auto_layout_styles F n)"
  by (simp add: get_auto_layout_styles_def justify_of_def Let_def css_property_def)

lemma prop_position:
  "decls_of {''position'', ''left'', ''top''} (get_position_styles F n p)"
  by (simp add: get_position_styles_def Let_def css_property_def)

lemma prop_size: "decls_of {''width'', ''height''} (get_size_styles F n)"
  by (simp add: get_size_styles_def Let_def css_property_def)

lemma prop_overflow: "decls_of {''overflow''} (get_overflow_styles n)"
  by (simp add: get_overflow_styles_def css_property_def)

lemma prop_transform: "decls_of {''transform''} (get_transform_styles F n)"
  by (simp add: get_transform_styles_def css_property_def split: option.split)

lemma prop_fill:
  "decls_of {''background-color'', ''background'', ''/* background-image''} (fill_styles F p)"
  by (simp add: fill_styles_def Let_def css_property_def split: option.split)

lemma prop_fills_loop:
  "decls_of {''background-color'', ''background'', ''/* background-image''} (fills_loop F ps)"
  by (induction ps) (simp_all add: prop_fill)

lemma prop_background:
  "decls_of {''background-color'', ''background'', ''/* background-image''}
     (get_background_styles F n)"
  by (simp add: get_background_styles_def prop_fills_loop)

lemma prop_stroke:
  "decls_of {''border'', ''box-sizing'', ''border-image''} (stroke_styles F w al p)"
  by (simp add: stroke_styles_def Let_def css_property_def split: option.split)

lemma prop_strokes_loop:
  "decls_of {''border'', ''box-sizing'', ''border-image''} (strokes_loop F w al ps)"
  by (induction ps) (simp_all add: prop_stroke)

lemma prop_border:
  "decls_of {''border'', ''box-sizing'', ''border-image'', ''border-top-width'',
     ''border-right-width'', ''border-bottom-width'', ''border-left-width''}
     (get_border_styles F n)"
proof -
  have "decls_of {''border'', ''box-sizing'', ''border-image'', ''border-top-width'',
     ''border-right-width'', ''border-bottom-width'', ''border-left-width''}
     (strokes_loop F w al ps)" for w al ps
    by (rule decls_of_mono [OF prop_strokes_loop]) simp
  then show ?thesis
    by (simp add: get_border_styles_def Let_def css_property_def split: option.split)
qed

lemma prop_radius: "decls_of {''border-radius''} (get_border_radius F n)"
  by (simp add: get_border_radius_def css_property_def split: option.split list.split)

lemma prop_effects_loop:
  "decls_of {''filter'', ''backdrop-filter''} st \<Longrightarrow>
   decls_of {''filter'', ''backdrop-filter''} (fst (effects_loop F es st bs))"
  by (induction es arbitrary: st bs) (simp_all add: Let_def css_property_def)

lemma prop_effect:
  "decls_of {''filter'', ''backdrop-filter'', ''box-shadow''} (get_effect_styles F n)"
proof -
  have "decls_of {''filter'', ''backdrop-filter'', ''box-shadow''}
      (fst (effects_loop F es [] []))" for es
    by (rule decls_of_mono [OF prop_effects_loop]) simp_all
  then show ?thesis
    by (simp add: get_effect_styles_def Let_def css_property_def split: prod.split)
       (metis fst_conv)
qed

lemma prop_opacity: "decls_of {''opacity''} (get_opacity F n)"
  by (simp add: get_opacity_def Let_def css_property_def)

lemma prop_blend: "decls_of {''mix-blend-mode''} (get_blend_mode n)"
  by (simp add: get_blend_mode_def Let_def css_property_def split: option.split)

lemma prop_text:
  "decls_of {''font-family'', ''font-size'', ''font-weight'', ''line-height'', ''letter-spacing'',
     ''text-align'', ''align-items'', ''text-decoration'', ''text-transform''}
     (get_text_styles F n)"
  unfolding get_text_styles_def Let_def decls_of_append
  by (intro conjI) (simp_all add: css_property_def split: option.split)

text \<open>
  When the position derivation gives nothing, every declaration collected for the node
  sets one of the other properties.
\<close>

lemma collect_styles_properties:
  assumes "get_position_styles F node parent = []"
  shows "decls_of non_position_properties (collect_styles F node parent)"
proof -
  have 1: "decls_of non_position_properties (get_auto_layout_styles F node)"
    by (rule decls_of_mono [OF prop_auto]) (simp add: non_position_properties_def)
  have 2: "decls_of non_position_properties (get_size_styles F node)"
    by (rule decls_of_mono [OF prop_size]) (simp add: non_position_properties_def)
  have 3: "decls_of non_position_properties (get_overflow_styles node)"
    by (rule decls_of_mono [OF prop_overflow]) (simp add: non_position_properties_def)
  have 4: "decls_of non_position_properties (get_transform_styles F node)"
    by (rule decls_of_mono [OF prop_transform]) (simp add: non_position_properties_def)
  have 5: "decls_of non_position_properties (get_background_styles F node)"
    by (rule decls_of_mono [OF prop_background]) (simp add: non_position_properties_def)
  have 6: "decls_of non_position_properties (get_border_styles F node)"
    by (rule decls_of_mono [OF prop_border]) (simp add: non_position_properties_def)
  have 7: "decls_of non_position_properties (get_border_radius F node)"
    by (rule decls_of_mono [OF prop_radius]) (simp add: non_position_properties_def)
  have 8: "decls_of non_position_properties (get_effect_styles F node)"
    by (rule decls_of_mono [OF prop_effect]) (simp add: non_position_properties_def)
  have 9: "decls_of non_position_properties (get_opacity F node)"
    by (rule decls_of_mono [OF prop_opacity]) (simp add: non_position_properties_def)
  have 10: "decls_of non_position_properties (get_blend_mode node)"
    by (rule decls_of_mono [OF prop_blend]) (simp add: non_position_properties_def)
  have 11: "decls_of non_position_properties (get_text_styles F node)"
    by (rule decls_of_mono [OF prop_text]) (simp add: non_position_properties_def)
  have 12: "css_property ''display: flex;'' \<in> non_position_properties"
    "css_property ''align-items: center;'' \<in> non_position_properties"
    by (simp_all add: css_property_def non_position_properties_def)
  show ?thesis
    using assms 1 2 3 4 5 6 7 8 9 10 11 12 by (simp add: collect_styles_def Let_def)
qed

text \<open>The definitions to unfold when a derivation is evaluated on a concrete node.\<close>

lemmas node_eval = get_position_styles_def get_size_styles_def get_auto_layout_styles_def
  get_overflow_styles_def get_transform_styles_def get_background_styles_def
  get_border_styles_def get_border_radius_def get_effect_styles_def get_opacity_def
  get_blend_mode_def get_text_styles_def collect_styles_def justify_of_def blend_mode_map_def
  dict_nonempty_def present_def get_or_def no_attrs_def no_style_def Let_def
  show_int_def show_nat.simps digit_char_def py_truthy_def lower_def lower_char_def

section \<open>The claims\<close>

text \<open>
  C1, as amended. For a document whose \<open>children\<close> list is empty, \<open>generate_html_css\<close>
  returns the fragment \<open><div>No content</div>\<close>, not wrapped in the document skeleton,
  and the empty string as the stylesheet; the generator is left as it was.
\<close>

theorem empty_document_fallback:
  "generate_html_css F g \<lparr>document = Some (Node a (Some []))\<rparr>
     = ((''<div>No content</div>'', []), g)"
  by (simp add: generate_html_css_def get_or_def)

text \<open>
  C1 as stated asks for a stylesheet equal to the base reset block. On the empty document
  the stylesheet returned is not that block.
\<close>

theorem empty_document_css_counterexample:
  "snd (fst (generate_html_css int_only HTMLGenerator_init
       \<lparr>document = Some (Node no_attrs (Some []))\<rparr>)) \<noteq> base_css"
  by (simp add: generate_html_css_def get_or_def base_css_def)

text \<open>
  C4. For a node whose parent has \<open>layoutMode\<close> HORIZONTAL or VERTICAL, the position
  derivation returns no declaration, and no declaration of the merged style list of the
  node sets \<open>position\<close>, \<open>left\<close> or \<open>top\<close>.
\<close>

theorem autolayout_child_no_position:
  assumes "n_layoutMode (attrs parent) = Some ''HORIZONTAL''
         \<or> n_layoutMode (attrs parent) = Some ''VERTICAL''"
  shows "get_position_styles F node (Some parent) = []
       \<and> list_all (\<lambda>s. css_property s \<notin> {''position'', ''left'', ''top''})
           (collect_styles F node (Some parent))"
proof -
  from assms have truthy: "dict_nonempty parent"
    by (auto simp: dict_nonempty_def present_def Let_def)
  with assms have pos: "get_position_styles F node (Some parent) = []"
    by (auto simp: get_position_styles_def Let_def)
  have "decls_of non_position_properties (collect_styles F node (Some parent))"
    by (rule collect_styles_properties [OF pos])
  then have "list_all (\<lambda>s. css_property s \<in> non_position_properties)
      (collect_styles F node (Some parent))"
    by (simp add: decls_of_def)
  moreover have "p \<in> non_position_properties \<Longrightarrow> p \<notin> {''position'', ''left'', ''top''}" for p
    by (auto simp: non_position_properties_def)
  ultimately have "list_all (\<lambda>s. css_property s \<notin> {''position'', ''left'', ''top''})
      (collect_styles F node (Some parent))"
    by (auto simp: list_all_iff)
  with pos show ?thesis by simp
qed

theorem autolayout_child_no_position_witness:
  "n_layoutMode (attrs row_frame) = Some ''HORIZONTAL''
   \<and> get_position_styles int_only boxed_rect (Some row_frame) = []
   \<and> collect_styles int_only boxed_rect (Some row_frame) = [''width: 30px;'', ''height: 40px;'']
   \<and> list_all (\<lambda>s. css_property s \<notin> {''position'', ''left'', ''top''})
        (collect_styles int_only boxed_rect (Some row_frame))"
proof -
  have h: "n_layoutMode (attrs row_frame) = Some ''HORIZONTAL''"
    by (simp add: row_frame_def no_attrs_def)
  have e: "collect_styles int_only boxed_rect (Some row_frame)
      = [''width: 30px;'', ''height: 40px;'']"
    by (simp add: row_frame_def boxed_rect_def node_eval)
  from h have "n_layoutMode (attrs row_frame) = Some ''HORIZONTAL''
         \<or> n_layoutMode (attrs row_frame) = Some ''VERTICAL''" by simp
  from autolayout_child_no_position [OF this, of int_only boxed_rect] h e
  show ?thesis by simp
qed

end
